theory Spec2Isabelle
  imports Main "HOL-Library.Word"
begin

section \<open>Python values used by \<open>plugins/utils.py\<close>\<close>

text \<open>
  A Python \<open>str\<close> is a sequence of Unicode code points, and \<open>len\<close> counts code points.
  It is modelled as a list of code point numbers; \<open>u ''...''\<close> is an ASCII literal.
\<close>

type_synonym pystr = "nat list"

abbreviation (input) u :: "string \<Rightarrow> pystr" where
  "u s \<equiv> map of_char s"

text \<open>\<open>str(n)\<close> for an \<open>int\<close>: the decimal digits, with a minus sign for negatives.\<close>

fun str_nat :: "nat \<Rightarrow> pystr" where
  "str_nat n = (if n < 10 then [48 + n] else str_nat (n div 10) @ [48 + n mod 10])"

declare str_nat.simps [simp del]

definition str_int :: "int \<Rightarrow> pystr" where
  "str_int i = (if i < 0 then 45 # str_nat (nat (- i)) else str_nat (nat i))"

text \<open>
  \<open>int(s)\<close> for a string of ASCII decimal digits; the source applies it only after
  checking that the string is \<open>"1"\<close> or \<open>"2"\<close>.
\<close>

definition py_int :: "pystr \<Rightarrow> int" where
  "py_int s = foldl (\<lambda>a c. 10 * a + (int c - 48)) 0 s"

text \<open>
  The characters \<open>str.isspace\<close>, \<open>str.strip()\<close> and \<open>str.split()\<close> treat as whitespace:
  TAB to CR, FS to US, space, NEL, NBSP, U+1680, U+2000 to U+200A, U+2028, U+2029, U+202F,
  U+205F and U+3000.
\<close>

definition isspace :: "nat \<Rightarrow> bool" where
  "isspace c =
     (c \<in> {9, 10, 11, 12, 13, 28, 29, 30, 31, 32, 133, 160, 5760, 8232, 8233, 8239, 8287, 12288}
      \<or> (8192 \<le> c \<and> c \<le> 8202))"

definition py_strip :: "pystr \<Rightarrow> pystr" where
  "py_strip s = rev (dropWhile isspace (rev (dropWhile isspace s)))"

text \<open>
  \<open>s.split()\<close> with no separator: the maximal runs of non-whitespace characters, in
  order. \<open>split_from cur s\<close> scans \<open>s\<close> with the token \<open>cur\<close> read so far.
\<close>

fun split_from :: "pystr \<Rightarrow> pystr \<Rightarrow> pystr list" where
  "split_from cur [] = (if cur = [] then [] else [cur])"
| "split_from cur (c # cs) =
     (if isspace c then (if cur = [] then split_from [] cs else cur # split_from [] cs)
      else split_from (cur @ [c]) cs)"

definition py_split :: "pystr \<Rightarrow> pystr list" where
  "py_split s = split_from [] s"

text \<open>\<open>sep.join(xs)\<close>.\<close>

fun py_join :: "pystr \<Rightarrow> pystr list \<Rightarrow> pystr" where
  "py_join sep [] = []"
| "py_join sep [x] = x"
| "py_join sep (x # y # ys) = x @ sep @ py_join sep (y # ys)"

text \<open>\<open>sub in s\<close> for two strings: \<open>sub\<close> occurs in \<open>s\<close> as a contiguous substring.\<close>

fun starts_with :: "pystr \<Rightarrow> pystr \<Rightarrow> bool" where
  "starts_with s [] = True"
| "starts_with [] (p # ps) = False"
| "starts_with (c # cs) (p # ps) = (c = p \<and> starts_with cs ps)"

fun py_in :: "pystr \<Rightarrow> pystr \<Rightarrow> bool" where
  "py_in sub [] = (sub = [])"
| "py_in sub (c # cs) = (starts_with (c # cs) sub \<or> py_in sub cs)"

text \<open>\<open>s.split("\n")\<close>: the lines of a text, used to read the status report.\<close>

fun lines_from :: "pystr \<Rightarrow> pystr \<Rightarrow> pystr list" where
  "lines_from cur [] = [cur]"
| "lines_from cur (c # cs) =
     (if c = 10 then cur # lines_from [] cs else lines_from (cur @ [c]) cs)"

definition py_lines :: "pystr \<Rightarrow> pystr list" where
  "py_lines s = lines_from [] s"

subsection \<open>Caller identities\<close>

text \<open>
  \<open>user_id: str | int = None\<close>. \<open>OWNER_ID = os.getenv("OWNER_ID")\<close> is a string, or
  \<open>None\<close> when the variable is not set; it is read once at import and is a parameter of
  every function below.
\<close>

datatype ident = IdNone | IdStr pystr | IdInt int

fun py_str :: "ident \<Rightarrow> pystr" where
  "py_str IdNone = u ''None''"
| "py_str (IdStr s) = s"
| "py_str (IdInt i) = str_int i"

text \<open>Truth value of \<open>user_id\<close> in a condition: \<open>None\<close>, \<open>""\<close> and \<open>0\<close> are false.\<close>

fun truthy :: "ident \<Rightarrow> bool" where
  "truthy IdNone = False"
| "truthy (IdStr s) = (s \<noteq> [])"
| "truthy (IdInt i) = (i \<noteq> 0)"

definition str_owner :: "pystr option \<Rightarrow> pystr" where
  "str_owner OWNER_ID = (case OWNER_ID of None \<Rightarrow> u ''None'' | Some s \<Rightarrow> s)"

subsection \<open>JSON values, dictionaries and exceptions\<close>

datatype pyval =
    PNone
  | PBool bool
  | PInt int
  | PFloat int int
  | PStr pystr
  | PList "pyval list"
  | PDict "(pystr \<times> pyval) list"

text \<open>
  An instance of \<open>Exception\<close>, with the text of \<open>str(e)\<close>. \<open>HTTPStatusError\<close> and
  \<open>RequestError\<close> are the two classes of \<open>httpx\<close> that \<open>create_image\<close> names.
\<close>

datatype exn =
    HTTPStatusError pystr
  | RequestError pystr
  | KeyError pystr
  | IndexError pystr
  | TypeError pystr
  | OtherException pystr

fun str_exn :: "exn \<Rightarrow> pystr" where
  "str_exn (HTTPStatusError m) = m"
| "str_exn (RequestError m) = m"
| "str_exn (KeyError m) = m"
| "str_exn (IndexError m) = m"
| "str_exn (TypeError m) = m"
| "str_exn (OtherException m) = m"

text \<open>
  \<open>d[key]\<close> on a dictionary with string keys, given by its items (keys distinct).
  A missing key raises \<open>KeyError(key)\<close>, whose text is the key in quotes.
\<close>

definition quoted :: "pystr \<Rightarrow> pystr" where
  "quoted s = [39] @ s @ [39]"

definition dict_get :: "(pystr \<times> 'v) list \<Rightarrow> pystr \<Rightarrow> exn + 'v" where
  "dict_get d k =
     (case map_of d k of
        Some v \<Rightarrow> Inr v
      | None \<Rightarrow> Inl (KeyError (quoted k)))"

fun type_name :: "pyval \<Rightarrow> pystr" where
  "type_name PNone = u ''NoneType''"
| "type_name (PBool b) = u ''bool''"
| "type_name (PInt i) = u ''int''"
| "type_name (PFloat m e) = u ''float''"
| "type_name (PStr s) = u ''str''"
| "type_name (PList xs) = u ''list''"
| "type_name (PDict d) = u ''dict''"

definition not_subscriptable :: "pyval \<Rightarrow> exn" where
  "not_subscriptable v =
     TypeError (quoted (type_name v) @ u '' object is not subscriptable'')"

text \<open>
  What an \<open>await\<close> on a collaborator may raise: an instance of \<open>Exception\<close>, or
  \<open>asyncio.CancelledError\<close>, which is a \<open>BaseException\<close> outside \<open>Exception\<close> and is raised
  at the \<open>await\<close> when the task is cancelled while suspended there.
\<close>

datatype raised = Exception exn | CancelledError


text \<open>Sequencing of steps that may raise: the first exception ends the sequence.\<close>

definition and_then :: "'e + 'a \<Rightarrow> ('a \<Rightarrow> 'e + 'b) \<Rightarrow> 'e + 'b" where
  "and_then m f = (case m of Inl x \<Rightarrow> Inl x | Inr a \<Rightarrow> f a)"

text \<open>\<open>v[key]\<close> for a string key, on any JSON value.\<close>

fun getitem_key :: "pyval \<Rightarrow> pystr \<Rightarrow> exn + pyval" where
  "getitem_key (PDict d) k = dict_get d k"
| "getitem_key (PList xs) k =
     Inl (TypeError (u ''list indices must be integers or slices, not str''))"
| "getitem_key (PStr s) k =
     Inl (TypeError (u ''string indices must be integers, not '' @ quoted (u ''str'')))"
| "getitem_key v k = Inl (not_subscriptable v)"

text \<open>\<open>v[0]\<close> on any JSON value. The keys of a JSON object are strings, so \<open>0\<close> is never one.\<close>

fun getitem_0 :: "pyval \<Rightarrow> exn + pyval" where
  "getitem_0 (PList xs) =
     (case xs of [] \<Rightarrow> Inl (IndexError (u ''list index out of range'')) | x # _ \<Rightarrow> Inr x)"
| "getitem_0 (PStr s) =
     (case s of [] \<Rightarrow> Inl (IndexError (u ''string index out of range'')) | c # _ \<Rightarrow> Inr (PStr [c]))"
| "getitem_0 (PDict d) = Inl (KeyError (u ''0''))"
| "getitem_0 v = Inl (not_subscriptable v)"

section \<open>Module state and external collaborators\<close>

text \<open>The four module-level variables that the functions declare \<open>global\<close>.\<close>

record globals =
  current_option :: int
  owner_temp_option :: "int option"
  deepinfra_requests :: int
  g4f_requests :: int

definition initial_globals :: globals where
  "initial_globals =
     \<lparr>current_option = 1, owner_temp_option = None, deepinfra_requests = 0, g4f_requests = 0\<rparr>"

text \<open>Truth value of \<open>owner_temp_option\<close> in a condition: \<open>None\<close> and \<open>0\<close> are false.\<close>

definition temp_active :: "int option \<Rightarrow> bool" where
  "temp_active t = (case t of None \<Rightarrow> False | Some v \<Rightarrow> v \<noteq> 0)"

type_synonym message = "(pystr \<times> pystr) list"
type_synonym history = "message list"
type_synonym bytes = "8 word list"

text \<open>
  An HTTP response as the code reads it: the status, the text of the \<open>HTTPStatusError\<close>
  that \<open>raise_for_status()\<close> builds for it, and what \<open>response.json()\<close> does (the parsed
  body, or the exception raised for a body that is not JSON).
\<close>

record response =
  status_code :: nat
  status_error :: pystr
  json :: "exn + pyval"

text \<open>
  The remote services and library calls, each either raising or returning:
  \<^item> \<open>requests_post h\<close>: \<open>requests.post(url, headers=..., data=json.dumps(payload))\<close> with
    \<open>h\<close> as the payload's messages;
  \<^item> \<open>client_init\<close>: \<open>Client()\<close>, \<open>None\<close> when it constructs;
  \<^item> \<open>create ms\<close>: \<open>client.chat.completions.create(model="gpt-4o-mini",
    messages=ms).choices[0].message.content\<close>, a string;
  \<^item> \<open>ddgs_text q\<close>: \<open>DDGS().text(q)\<close>, a list of dictionaries;
  \<^item> \<open>httpx_get url\<close>: \<open>await cl.get(url)\<close>, the only \<open>await\<close> of the module on a
    collaborator, and so the only place where a cancellation can be raised
    (\<open>requests.post\<close>, the g4f client and \<open>DDGS\<close> are called synchronously, and the two
    provider clients contain no \<open>await\<close>);
  \<^item> \<open>b64decode v\<close>: \<open>base64.b64decode(v)\<close>.
\<close>

record env =
  requests_post :: "history \<Rightarrow> exn + response"
  client_init :: "exn option"
  create :: "history \<Rightarrow> exn + pystr"
  ddgs_text :: "pystr \<Rightarrow> exn + message list"
  httpx_get :: "pystr \<Rightarrow> raised + response"
  b64decode :: "pyval \<Rightarrow> exn + bytes"

text \<open>The outbound calls a provider client makes, in order.\<close>

datatype call = Post history | Create history | Search pystr

section \<open>Provider clients\<close>

subsection \<open>Option 1: DeepInfra\<close>

text \<open>
  The body of the \<open>try\<close> block of \<open>deepinfra_response\<close>: what it returns or raises, the
  globals when it does, and the calls made. The counter is incremented between
  \<open>response.json()\<close> and the lookup \<open>data["choices"][0]["message"]["content"]\<close>, which is
  \<open>content_of data\<close>.
\<close>

definition content_of :: "pyval \<Rightarrow> exn + pyval" where
  "content_of data =
     and_then (getitem_key data (u ''choices'')) (\<lambda>choices.
     and_then (getitem_0 choices) (\<lambda>choice.
     and_then (getitem_key choice (u ''message'')) (\<lambda>msg.
     getitem_key msg (u ''content''))))"

definition deepinfra_try :: "env \<Rightarrow> globals \<Rightarrow> history \<Rightarrow> (exn + pyval) \<times> globals \<times> call list" where
  "deepinfra_try e g history =
     (case requests_post e history of
        Inl x \<Rightarrow> (Inl x, g, [Post history])
      | Inr response \<Rightarrow>
          (case json response of
             Inl x \<Rightarrow> (Inl x, g, [Post history])
           | Inr data \<Rightarrow>
               (content_of data,
                g\<lparr>deepinfra_requests := deepinfra_requests g + 1\<rparr>,
                [Post history])))"

definition deepinfra_apology :: pystr where
  "deepinfra_apology =
     u ''I'm sorry, I couldn't get a response from DeepInfra right now.''"

text \<open>\<open>except Exception\<close>: the apology is returned (the \<open>print\<close> is not modelled).\<close>

definition deepinfra_response :: "env \<Rightarrow> globals \<Rightarrow> history \<Rightarrow> pyval \<times> globals \<times> call list" where
  "deepinfra_response e g history =
     (case deepinfra_try e g history of
        (Inr content, g', calls) \<Rightarrow> (content, g', calls)
      | (Inl x, g', calls) \<Rightarrow> (PStr deepinfra_apology, g', calls))"

subsection \<open>Option 2: g4f with the DuckDuckGo fallback\<close>

text \<open>\<open>[r["body"] for r in rs]\<close>: the first missing key raises.\<close>

fun bodies :: "message list \<Rightarrow> exn + pystr list" where
  "bodies [] = Inr []"
| "bodies (r # rs) =
     (case dict_get r (u ''body'') of
        Inl x \<Rightarrow> Inl x
      | Inr b \<Rightarrow> (case bodies rs of Inl x \<Rightarrow> Inl x | Inr bs \<Rightarrow> Inr (b # bs)))"

text \<open>\<open>f"{prompt}\n\nUse this web info to answer:\n{web_text}"\<close>.\<close>

definition combined_prompt :: "pystr \<Rightarrow> pystr \<Rightarrow> pystr" where
  "combined_prompt prompt web_text =
     prompt @ [10, 10] @ u ''Use this web info to answer:'' @ [10] @ web_text"

text \<open>\<open>[{"role": "user", "content": combined_prompt}]\<close>.\<close>

definition retry_messages :: "pystr \<Rightarrow> history" where
  "retry_messages p = [[(u ''role'', u ''user''), (u ''content'', p)]]"

text \<open>\<open>"I don't know" in response or len(response) < 20\<close>.\<close>

definition low_confidence :: "pystr \<Rightarrow> bool" where
  "low_confidence response = (py_in (u ''I don't know'') response \<or> length response < 20)"

definition g4f_try :: "env \<Rightarrow> globals \<Rightarrow> history \<Rightarrow> (exn + pystr) \<times> globals \<times> call list" where
  "g4f_try e g history =
     (case client_init e of
        Some x \<Rightarrow> (Inl x, g, [])
      | None \<Rightarrow>
          (case (if history \<noteq> [] then dict_get (last history) (u ''content'') else Inr (u ''Hello'')) of
             Inl x \<Rightarrow> (Inl x, g, [])
           | Inr prompt \<Rightarrow>
               (case create e history of
                  Inl x \<Rightarrow> (Inl x, g, [Create history])
                | Inr response \<Rightarrow>
                    (let g' = g\<lparr>g4f_requests := g4f_requests g + 1\<rparr> in
                     if low_confidence response then
                       (case ddgs_text e prompt of
                          Inl x \<Rightarrow> (Inl x, g', [Create history, Search prompt])
                        | Inr search_result \<Rightarrow>
                            (case bodies (take 3 search_result) of
                               Inl x \<Rightarrow> (Inl x, g', [Create history, Search prompt])
                             | Inr bs \<Rightarrow>
                                 (let web_text = py_join [10] bs;
                                      ms = retry_messages (combined_prompt prompt web_text) in
                                  (case create e ms of
                                     Inl x \<Rightarrow> (Inl x, g', [Create history, Search prompt, Create ms])
                                   | Inr response2 \<Rightarrow>
                                       (Inr response2, g', [Create history, Search prompt, Create ms])))))
                     else (Inr response, g', [Create history])))))"

text \<open>\<open>except Exception as e: return f"Error: {e}"\<close>.\<close>

definition g4f_response :: "env \<Rightarrow> globals \<Rightarrow> history \<Rightarrow> pyval \<times> globals \<times> call list" where
  "g4f_response e g history =
     (case g4f_try e g history of
        (Inr response, g', calls) \<Rightarrow> (PStr response, g', calls)
      | (Inl x, g', calls) \<Rightarrow> (PStr (u ''Error: '' @ str_exn x), g', calls))"

section \<open>Response router\<close>

text \<open>The local variable \<open>option_to_use\<close> of \<open>get_ai_response\<close> when it dispatches.\<close>

definition option_to_use :: "pystr option \<Rightarrow> globals \<Rightarrow> ident \<Rightarrow> int" where
  "option_to_use OWNER_ID g user_id =
     (if truthy user_id \<and> py_str user_id = str_owner OWNER_ID \<and> temp_active (owner_temp_option g)
      then the (owner_temp_option g)
      else current_option g)"

definition get_ai_response ::
  "env \<Rightarrow> pystr option \<Rightarrow> globals \<Rightarrow> history \<Rightarrow> ident \<Rightarrow> pyval \<times> globals \<times> call list" where
  "get_ai_response e OWNER_ID g history user_id =
     (if option_to_use OWNER_ID g user_id = 2 then g4f_response e g history
      else deepinfra_response e g history)"

section \<open>Option controller\<close>

definition owner_only :: pystr where
  "owner_only = [9940] @ u '' Only the owner can use this command.''"

definition usage :: pystr where
  "usage = u ''Usage: /tryoption <1|2> or /fixoption <1|2>''"

definition invalid_option :: pystr where
  "invalid_option = [10060] @ u '' Invalid option. Choose 1 or 2.''"

definition temporary_switched :: "int \<Rightarrow> pystr" where
  "temporary_switched v =
     [9989] @ u '' Temporary model switched to Option '' @ str_int v @ u '' (for owner only).''"

definition permanently_changed :: "int \<Rightarrow> pystr" where
  "permanently_changed v =
     [9989] @ u '' Global model permanently changed to Option '' @ str_int v @ u ''.''"

definition handle_option_command ::
  "pystr option \<Rightarrow> globals \<Rightarrow> ident \<Rightarrow> pystr \<Rightarrow> pystr \<times> globals" where
  "handle_option_command OWNER_ID g user_id command =
     (if py_str user_id \<noteq> str_owner OWNER_ID then (owner_only, g)
      else
        (let parts = py_split (py_strip command) in
         if length parts \<noteq> 2 \<or> parts ! 0 \<notin> set [u ''/tryoption'', u ''/fixoption'']
         then (usage, g)
         else
           (let cmd = parts ! 0; val = parts ! 1 in
            if val \<notin> set [u ''1'', u ''2''] then (invalid_option, g)
            else
              (let v = py_int val in
               if cmd = u ''/tryoption''
               then (temporary_switched v, g\<lparr>owner_temp_option := Some v\<rparr>)
               else (permanently_changed v,
                     g\<lparr>current_option := v, owner_temp_option := None\<rparr>)))))"

section \<open>Status reporter\<close>

definition option_display :: "globals \<Rightarrow> pystr" where
  "option_display g =
     u ''Option 1 '' @ [8594] @ u '' DeepInfra'' @ [10] @
     u ''Total Requests: '' @ str_int (deepinfra_requests g) @ [10, 10] @
     u ''Option 2 '' @ [8594] @ u '' g4f + DuckDuckGo'' @ [10] @
     u ''Total Requests: '' @ str_int (g4f_requests g) @ [10, 10]"

definition current_line :: "pystr option \<Rightarrow> globals \<Rightarrow> ident \<Rightarrow> pystr" where
  "current_line OWNER_ID g user_id =
     (if py_str user_id = str_owner OWNER_ID \<and> temp_active (owner_temp_option g)
      then u ''Current Model: Option '' @ str_int (the (owner_temp_option g)) @
           u '' (temporary for owner)''
      else u ''Current Model: Option '' @ str_int (current_option g))"

definition handle_status_command :: "pystr option \<Rightarrow> globals \<Rightarrow> ident \<Rightarrow> pystr \<times> globals" where
  "handle_status_command OWNER_ID g user_id =
     ([128202] @ u '' Model Status'' @ [10, 10] @ option_display g @ current_line OWNER_ID g user_id,
      g)"

section \<open>Image proxy\<close>




section \<open>An invariant of the globals, and concrete scenarios\<close>

text \<open>
  The temporary override is \<open>None\<close>, 1 or 2: this holds initially, and
  \<open>handle_option_command\<close>, the only function that assigns the override, stores \<open>None\<close>,
  \<open>int("1")\<close> or \<open>int("2")\<close>.
\<close>

definition override_ok :: "globals \<Rightarrow> bool" where
  "override_ok g = (owner_temp_option g \<in> {None, Some 1, Some 2})"

text \<open>A conversation, and collaborators that answer it; used to run the functions.\<close>

definition sample_history :: history where
  "sample_history =
     [[(u ''role'', u ''user''), (u ''content'', u ''What is the capital of France?'')]]"

definition sample_completion :: pyval where
  "sample_completion =
     PDict [(u ''id'', PStr (u ''chatcmpl-1'')),
            (u ''choices'',
             PList [PDict [(u ''index'', PInt 0),
                           (u ''message'',
                            PDict [(u ''role'', PStr (u ''assistant'')),
                                   (u ''content'', PStr (u ''The capital of France is Paris.''))])]])]"

definition sample_results :: "message list" where
  "sample_results =
     [[(u ''title'', u ''Paris''), (u ''href'', u ''https://a.example''), (u ''body'', u ''Paris is the capital of France.'')],
      [(u ''title'', u ''France''), (u ''href'', u ''https://b.example''), (u ''body'', u ''France is in Europe.'')],
      [(u ''title'', u ''Capital''), (u ''href'', u ''https://c.example''), (u ''body'', u ''A capital is a seat of government.'')],
      [(u ''title'', u ''Fourth''), (u ''href'', u ''https://d.example''), (u ''body'', u ''Not used.'')]]"

definition sample_env :: env where
  "sample_env =
     \<lparr>requests_post = (\<lambda>h. Inr \<lparr>status_code = 200, status_error = [], json = Inr sample_completion\<rparr>),
      client_init = None,
      create = (\<lambda>ms. if ms = sample_history then Inr (u ''I don't know.'')
                       else Inr (u ''Paris is the capital of France.'')),
      ddgs_text = (\<lambda>q. Inr sample_results),
      httpx_get = (\<lambda>url. Inr \<lparr>status_code = 200, status_error = [],
                                json = Inr (PDict [(u ''image'', PStr (u ''aGk=''))])\<rparr>),
      b64decode = (\<lambda>v. if v = PStr (u ''aGk='') then Inr [104, 105]
                          else Inl (OtherException (u ''Incorrect padding'')))\<rparr>"

text \<open>A gateway's error page: the request is answered, with a body that is not JSON.\<close>

definition bad_gateway :: response where
  "bad_gateway =
     \<lparr>status_code = 502,
      status_error = u ''Server error '' @ quoted (u ''502 Bad Gateway''),
      json = Inl (OtherException (u ''Expecting value: line 1 column 1 (char 0)''))\<rparr>"

text \<open>The globals after \<open>user_id\<close> has sent a command to the option controller.\<close>

definition after_command :: "pystr option \<Rightarrow> globals \<Rightarrow> ident \<Rightarrow> pystr \<Rightarrow> globals" where
  "after_command OWNER_ID g user_id command =
     snd (handle_option_command OWNER_ID g user_id command)"

text \<open>The initial globals with the global option set to 2.\<close>

definition secondary_globals :: globals where
  "secondary_globals =
     \<lparr>current_option = 2, owner_temp_option = None, deepinfra_requests = 0, g4f_requests = 0\<rparr>"

text \<open>The messages of the retry for \<open>sample_history\<close> with \<open>sample_results\<close>.\<close>

definition sample_retry :: history where
  "sample_retry =
     [[(u ''role'', u ''user''),
       (u ''content'',
        u ''What is the capital of France?'' @ [10, 10] @
        u ''Use this web info to answer:'' @ [10] @
        u ''Paris is the capital of France.'' @ [10] @
        u ''France is in Europe.'' @ [10] @
        u ''A capital is a seat of government.'')]]"

section \<open>Auxiliary facts\<close>

subsection \<open>Decimal digits\<close>

lemma str_int_1: "str_int 1 = u ''1''"
  by (simp add: str_int_def str_nat.simps)

lemma str_int_2: "str_int 2 = u ''2''"
  by (simp add: str_int_def str_nat.simps)

lemma set_str_nat: "set (str_nat n) \<subseteq> {48..57}"
proof (induction n rule: str_nat.induct)
  case (1 n)
  show ?case
  proof (cases "n < 10")
    case True
    then show ?thesis by (subst str_nat.simps) simp
  next
    case False
    have "n mod 10 < 10" by simp
    then have "48 + n mod 10 \<in> {48..57}" by simp
    with 1 False show ?thesis by (subst str_nat.simps) simp
  qed
qed

lemma set_str_int: "set (str_int i) \<subseteq> insert 45 {48..57}"
  using set_str_nat by (auto simp: str_int_def)

lemma no_newline_str_int: "10 \<notin> set (str_int i)"
  using set_str_int [of i] by auto

lemma no_space_str_int: "32 \<notin> set (str_int i)"
  using set_str_int [of i] by auto

lemma no_C_str_int: "67 \<notin> set (str_int i)"
  using set_str_int [of i] by auto

subsection \<open>Lines and substrings\<close>

lemma lines_from_append:
  "10 \<notin> set xs \<Longrightarrow> lines_from cur (xs @ ys) = lines_from (cur @ xs) ys"
  by (induction xs arbitrary: cur) auto

lemma lines_from_last: "10 \<notin> set xs \<Longrightarrow> lines_from cur xs = [cur @ xs]"
  by (induction xs arbitrary: cur) auto

lemma py_in_hd: "py_in (c # sub) s \<Longrightarrow> c \<in> set s"
  by (induction s) auto

lemma requests_line_no_current:
  "\<not> py_in (u ''Current Model'') (u ''Total Requests: '' @ str_int i)"
proof
  assume "py_in (u ''Current Model'') (u ''Total Requests: '' @ str_int i)"
  then have "67 \<in> set (u ''Total Requests: '' @ str_int i)"
    using py_in_hd [of 67 "u ''urrent Model''"] by simp
  then show False using no_C_str_int [of i] by simp
qed

subsection \<open>The status report, line by line\<close>

lemma no_newline_current_line: "10 \<notin> set (current_line OWNER_ID g user_id)"
  using no_newline_str_int by (simp add: current_line_def)

lemma current_line_has_current: "py_in (u ''Current Model'') (current_line OWNER_ID g user_id)"
  by (simp add: current_line_def)

lemma status_lines:
  "py_lines (fst (handle_status_command OWNER_ID g user_id)) =
     [[128202] @ u '' Model Status'',
      [],
      u ''Option 1 '' @ [8594] @ u '' DeepInfra'',
      u ''Total Requests: '' @ str_int (deepinfra_requests g),
      [],
      u ''Option 2 '' @ [8594] @ u '' g4f + DuckDuckGo'',
      u ''Total Requests: '' @ str_int (g4f_requests g),
      [],
      current_line OWNER_ID g user_id]"
  by (simp add: handle_status_command_def py_lines_def option_display_def
      lines_from_append no_newline_str_int lines_from_last no_newline_current_line)

lemma status_keeps_globals: "snd (handle_status_command OWNER_ID g user_id) = g"
  by (simp add: handle_status_command_def)

subsection \<open>Accepted commands\<close>

lemma handle_fix:
  "py_str user_id = str_owner OWNER_ID \<Longrightarrow>
   py_split (py_strip command) = [u ''/fixoption'', val] \<Longrightarrow>
   val = u ''1'' \<or> val = u ''2'' \<Longrightarrow>
   handle_option_command OWNER_ID g user_id command =
     (permanently_changed (py_int val),
      g\<lparr>current_option := py_int val, owner_temp_option := None\<rparr>)"
  by (auto simp add: handle_option_command_def Let_def)

lemma handle_try:
  "py_str user_id = str_owner OWNER_ID \<Longrightarrow>
   py_split (py_strip command) = [u ''/tryoption'', val] \<Longrightarrow>
   val = u ''1'' \<or> val = u ''2'' \<Longrightarrow>
   handle_option_command OWNER_ID g user_id command =
     (temporary_switched (py_int val), g\<lparr>owner_temp_option := Some (py_int val)\<rparr>)"
  by (auto simp add: handle_option_command_def Let_def)

lemma parse_fix_1: "py_split (py_strip (u ''/fixoption 1'')) = [u ''/fixoption'', u ''1'']"
  by (simp add: py_split_def py_strip_def isspace_def)

lemma parse_fix_2: "py_split (py_strip (u ''/fixoption 2'')) = [u ''/fixoption'', u ''2'']"
  by (simp add: py_split_def py_strip_def isspace_def)

lemma parse_try_1: "py_split (py_strip (u ''/tryoption 1'')) = [u ''/tryoption'', u ''1'']"
  by (simp add: py_split_def py_strip_def isspace_def)

lemma parse_try_2: "py_split (py_strip (u ''/tryoption 2'')) = [u ''/tryoption'', u ''2'']"
  by (simp add: py_split_def py_strip_def isspace_def)

text \<open>The controller keeps the override among \<open>None\<close>, 1 and 2, whoever calls it.\<close>

lemma handle_option_command_override_ok:
  "override_ok g \<Longrightarrow> override_ok (snd (handle_option_command OWNER_ID g user_id command))"
  by (auto simp add: handle_option_command_def Let_def override_ok_def py_int_def)

lemma initial_override_ok: "override_ok initial_globals"
  by (simp add: override_ok_def initial_globals_def)

subsection \<open>Routing\<close>

lemma route_global:
  "\<not> truthy user_id \<or> py_str user_id \<noteq> str_owner OWNER_ID \<or>
     \<not> temp_active (owner_temp_option g) \<Longrightarrow>
   get_ai_response e OWNER_ID g history user_id =
     (if current_option g = 2 then g4f_response e g history else deepinfra_response e g history)"
  by (auto simp add: get_ai_response_def option_to_use_def)

lemma route_override:
  "truthy user_id \<Longrightarrow> py_str user_id = str_owner OWNER_ID \<Longrightarrow>
   owner_temp_option g = Some v \<Longrightarrow> v \<noteq> 0 \<Longrightarrow>
   get_ai_response e OWNER_ID g history user_id =
     (if v = 2 then g4f_response e g history else deepinfra_response e g history)"
  by (simp add: get_ai_response_def option_to_use_def temp_active_def)

section \<open>Verified properties\<close>

subsection \<open>Option controller: callers other than the owner\<close>

text \<open>
  C3. For every caller whose identity, as a string, differs from \<open>str(OWNER_ID)\<close>, the
  option controller returns the fixed refusal message, whatever the command string is,
  and returns the globals as they were: \<open>current_option\<close>, \<open>owner_temp_option\<close> and both
  request counters are unchanged.
\<close>

theorem non_owner_refused:
  "py_str user_id \<noteq> str_owner OWNER_ID \<Longrightarrow>
   handle_option_command OWNER_ID g user_id command = (owner_only, g)"
  by (simp add: handle_option_command_def)

theorem non_owner_refused_witness:
  "py_str (IdInt 7) \<noteq> str_owner (Some (u ''42'')) \<and>
   handle_option_command (Some (u ''42'')) initial_globals (IdInt 7) (u ''/fixoption 2'') =
     (owner_only, initial_globals)"
  using non_owner_refused [of "IdInt 7" "Some (u ''42'')" initial_globals "u ''/fixoption 2''"]
  by (simp add: str_owner_def str_int_def str_nat.simps)

subsection \<open>Option controller: the two commands of the owner\<close>

text \<open>
  C4. For a caller whose identity equals \<open>str(OWNER_ID)\<close> and \<open>v\<close> equal to 1 or 2: a command
  that splits into \<open>/fixoption\<close> and \<open>v\<close> sets \<open>current_option\<close> to \<open>v\<close>, clears
  \<open>owner_temp_option\<close> and returns the confirmation
  \<open>Global model permanently changed to Option v.\<close> after a check mark (U+2705); a command
  that splits into \<open>/tryoption\<close> and \<open>v\<close> sets \<open>owner_temp_option\<close> to \<open>v\<close>, leaves
  \<open>current_option\<close> as it was and returns the confirmation
  \<open>Temporary model switched to Option v (for owner only).\<close> after the same check mark.
  After \<open>/fixoption 2\<close> the global option is 2, the override is unset, and a routing call
  from any caller other than the owner goes to the g4f client.
\<close>

theorem fix_and_try:
  assumes "py_str user_id = str_owner OWNER_ID" and "v = 1 \<or> v = 2"
  shows
   "(py_split (py_strip fix_command) = [u ''/fixoption'', str_int v] \<longrightarrow>
       handle_option_command OWNER_ID g user_id fix_command =
         ([9989] @ u '' Global model permanently changed to Option '' @ str_int v @ u ''.'',
          g\<lparr>current_option := v, owner_temp_option := None\<rparr>)) \<and>
    (py_split (py_strip try_command) = [u ''/tryoption'', str_int v] \<longrightarrow>
       handle_option_command OWNER_ID g user_id try_command =
         ([9989] @ u '' Temporary model switched to Option '' @ str_int v @ u '' (for owner only).'',
          g\<lparr>owner_temp_option := Some v\<rparr>)) \<and>
    (let g' = snd (handle_option_command OWNER_ID g user_id (u ''/fixoption 2'')) in
       current_option g' = 2 \<and> owner_temp_option g' = None \<and>
       (\<forall>other. py_str other \<noteq> str_owner OWNER_ID \<longrightarrow>
          get_ai_response e OWNER_ID g' history other = g4f_response e g' history))"
proof (intro conjI impI)
  have val: "str_int v = u ''1'' \<or> str_int v = u ''2''" and int: "py_int (str_int v) = v"
    using assms(2) by (auto simp: str_int_1 str_int_2 py_int_def)
  show "handle_option_command OWNER_ID g user_id fix_command =
         ([9989] @ u '' Global model permanently changed to Option '' @ str_int v @ u ''.'',
          g\<lparr>current_option := v, owner_temp_option := None\<rparr>)"
    if "py_split (py_strip fix_command) = [u ''/fixoption'', str_int v]"
    using handle_fix [OF assms(1) that val, of g] by (simp only: int permanently_changed_def)
  show "handle_option_command OWNER_ID g user_id try_command =
         ([9989] @ u '' Temporary model switched to Option '' @ str_int v @ u '' (for owner only).'',
          g\<lparr>owner_temp_option := Some v\<rparr>)"
    if "py_split (py_strip try_command) = [u ''/tryoption'', str_int v]"
    using handle_try [OF assms(1) that val, of g] by (simp only: int temporary_switched_def)
  define g' where "g' = snd (handle_option_command OWNER_ID g user_id (u ''/fixoption 2''))"
  have g': "g' = g\<lparr>current_option := 2, owner_temp_option := None\<rparr>"
    using handle_fix [OF assms(1) parse_fix_2, of g] by (simp add: g'_def py_int_def)
  have "get_ai_response e OWNER_ID g' history other = g4f_response e g' history"
    if "py_str other \<noteq> str_owner OWNER_ID" for other
    using route_global [of other OWNER_ID g' e history] that by (simp add: g')
  then show "let g' = snd (handle_option_command OWNER_ID g user_id (u ''/fixoption 2'')) in
       current_option g' = 2 \<and> owner_temp_option g' = None \<and>
       (\<forall>other. py_str other \<noteq> str_owner OWNER_ID \<longrightarrow>
          get_ai_response e OWNER_ID g' history other = g4f_response e g' history)"
    unfolding Let_def g'_def [symmetric] by (simp add: g')
qed

theorem fix_and_try_witness:
  "py_str (IdInt 42) = str_owner (Some (u ''42'')) \<and>
   handle_option_command (Some (u ''42'')) initial_globals (IdInt 42) (u ''/fixoption 2'') =
     ([9989] @ u '' Global model permanently changed to Option 2.'',
      initial_globals\<lparr>current_option := 2, owner_temp_option := None\<rparr>) \<and>
   handle_option_command (Some (u ''42'')) initial_globals (IdInt 42) (u ''  /tryoption   2 '') =
     ([9989] @ u '' Temporary model switched to Option 2 (for owner only).'',
      initial_globals\<lparr>owner_temp_option := Some 2\<rparr>) \<and>
   py_str (IdInt 7) \<noteq> str_owner (Some (u ''42'')) \<and>
   get_ai_response sample_env (Some (u ''42''))
     (after_command (Some (u ''42'')) initial_globals (IdInt 42) (u ''/fixoption 2''))
     sample_history (IdInt 7) =
   g4f_response sample_env
     (after_command (Some (u ''42'')) initial_globals (IdInt 42) (u ''/fixoption 2''))
     sample_history"
proof -
  have owner: "py_str (IdInt 42) = str_owner (Some (u ''42''))"
    by (simp add: str_owner_def str_int_def str_nat.simps)
  have other: "py_str (IdInt 7) \<noteq> str_owner (Some (u ''42''))"
    by (simp add: str_owner_def str_int_def str_nat.simps)
  have p1: "py_split (py_strip (u ''/fixoption 2'')) = [u ''/fixoption'', str_int 2]"
    by (simp add: py_split_def py_strip_def isspace_def str_int_2)
  have p2: "py_split (py_strip (u ''  /tryoption   2 '')) = [u ''/tryoption'', str_int 2]"
    by (simp add: py_split_def py_strip_def isspace_def str_int_2)
  note t = fix_and_try [where user_id = "IdInt 42" and OWNER_ID = "Some (u ''42'')" and v = 2
      and fix_command = "u ''/fixoption 2''" and try_command = "u ''  /tryoption   2 ''"
      and g = initial_globals and e = sample_env and history = sample_history, OF owner]
  from t p1 have a: "handle_option_command (Some (u ''42'')) initial_globals (IdInt 42) (u ''/fixoption 2'') =
     ([9989] @ u '' Global model permanently changed to Option 2.'',
      initial_globals\<lparr>current_option := 2, owner_temp_option := None\<rparr>)"
    by (simp add: str_int_2)
  from t p2 have b: "handle_option_command (Some (u ''42'')) initial_globals (IdInt 42) (u ''  /tryoption   2 '') =
     ([9989] @ u '' Temporary model switched to Option 2 (for owner only).'',
      initial_globals\<lparr>owner_temp_option := Some 2\<rparr>)"
    by (simp add: str_int_2)
  from t have "\<forall>other. py_str other \<noteq> str_owner (Some (u ''42'')) \<longrightarrow>
      get_ai_response sample_env (Some (u ''42''))
        (after_command (Some (u ''42'')) initial_globals (IdInt 42) (u ''/fixoption 2''))
        sample_history other =
      g4f_response sample_env
        (after_command (Some (u ''42'')) initial_globals (IdInt 42) (u ''/fixoption 2''))
        sample_history"
    unfolding Let_def after_command_def by simp
  with other have c: "get_ai_response sample_env (Some (u ''42''))
        (after_command (Some (u ''42'')) initial_globals (IdInt 42) (u ''/fixoption 2''))
        sample_history (IdInt 7) =
      g4f_response sample_env
        (after_command (Some (u ''42'')) initial_globals (IdInt 42) (u ''/fixoption 2''))
        sample_history"
    by blast
  from owner a b other c show ?thesis by blast
qed

subsection \<open>Option controller: rejected commands of the owner\<close>

text \<open>
  C6. For a caller whose identity equals \<open>str(OWNER_ID)\<close>: when the command does not split
  on whitespace into exactly two tokens, or its first token is neither \<open>/tryoption\<close> nor
  \<open>/fixoption\<close>, the controller returns the usage string; when it does and the second
  token is neither \<open>1\<close> nor \<open>2\<close>, it returns the invalid-option message. In both cases
  the globals are returned unchanged.
\<close>

theorem rejected_commands:
  assumes "py_str user_id = str_owner OWNER_ID"
  shows
   "(let parts = py_split (py_strip command) in
      (length parts \<noteq> 2 \<or> parts ! 0 \<notin> {u ''/tryoption'', u ''/fixoption''} \<longrightarrow>
         handle_option_command OWNER_ID g user_id command = (usage, g)) \<and>
      (length parts = 2 \<and> parts ! 0 \<in> {u ''/tryoption'', u ''/fixoption''} \<and>
       parts ! 1 \<notin> {u ''1'', u ''2''} \<longrightarrow>
         handle_option_command OWNER_ID g user_id command = (invalid_option, g)))"
  using assms by (simp add: handle_option_command_def Let_def)

theorem rejected_commands_witness:
  "py_str (IdStr (u ''42'')) = str_owner (Some (u ''42'')) \<and>
   handle_option_command (Some (u ''42'')) initial_globals (IdStr (u ''42'')) (u ''/fixoption'') =
     (usage, initial_globals) \<and>
   handle_option_command (Some (u ''42'')) initial_globals (IdStr (u ''42'')) (u ''/setoption 1'') =
     (usage, initial_globals) \<and>
   handle_option_command (Some (u ''42'')) initial_globals (IdStr (u ''42'')) (u ''/fixoption 3'') =
     (invalid_option, initial_globals)"
proof -
  have owner: "py_str (IdStr (u ''42'')) = str_owner (Some (u ''42''))"
    by (simp add: str_owner_def)
  note t = rejected_commands [OF owner, where g = initial_globals]
  have p1: "py_split (py_strip (u ''/fixoption'')) = [u ''/fixoption'']"
    and p2: "py_split (py_strip (u ''/setoption 1'')) = [u ''/setoption'', u ''1'']"
    and p3: "py_split (py_strip (u ''/fixoption 3'')) = [u ''/fixoption'', u ''3'']"
    by (simp_all add: py_split_def py_strip_def isspace_def)
  from t [of "u ''/fixoption''"] t [of "u ''/setoption 1''"] t [of "u ''/fixoption 3''"]
  show ?thesis
    unfolding Let_def p1 p2 p3 by (simp add: str_owner_def)
qed

subsection \<open>Status reporter\<close>

text \<open>
  C9. For every caller and all globals whose override is unset or non-zero (the
  controller only stores 1 or 2), the status report consists of nine lines that show both
  request counters, and exactly one of them contains \<open>Current Model\<close>: it shows the
  override, labelled \<open>(temporary for owner)\<close>, when the caller's identity equals
  \<open>str(OWNER_ID)\<close> and the override is set, and \<open>current_option\<close> otherwise. The call
  always returns a report, and the globals it returns are the ones it was given.
\<close>

theorem status_report:
  assumes "owner_temp_option g \<noteq> Some 0"
    and "current =
      (if py_str user_id = str_owner OWNER_ID \<and> owner_temp_option g \<noteq> None
       then u ''Current Model: Option '' @ str_int (the (owner_temp_option g)) @
            u '' (temporary for owner)''
       else u ''Current Model: Option '' @ str_int (current_option g))"
  shows
   "\<exists>report.
      handle_status_command OWNER_ID g user_id = (report, g) \<and>
      py_lines report =
        [[128202] @ u '' Model Status'',
         [],
         u ''Option 1 '' @ [8594] @ u '' DeepInfra'',
         u ''Total Requests: '' @ str_int (deepinfra_requests g),
         [],
         u ''Option 2 '' @ [8594] @ u '' g4f + DuckDuckGo'',
         u ''Total Requests: '' @ str_int (g4f_requests g),
         [],
         current] \<and>
      filter (py_in (u ''Current Model'')) (py_lines report) = [current]"
proof -
  define report where "report = fst (handle_status_command OWNER_ID g user_id)"
  have result: "handle_status_command OWNER_ID g user_id = (report, g)"
    using status_keeps_globals [of OWNER_ID g user_id] by (simp add: report_def prod_eq_iff)
  have active: "temp_active (owner_temp_option g) = (owner_temp_option g \<noteq> None)"
    using assms(1) by (cases "owner_temp_option g") (simp_all add: temp_active_def)
  have cur: "current_line OWNER_ID g user_id = current"
    by (simp add: current_line_def active assms(2))
  have lines: "py_lines report =
      [[128202] @ u '' Model Status'',
       [],
       u ''Option 1 '' @ [8594] @ u '' DeepInfra'',
       u ''Total Requests: '' @ str_int (deepinfra_requests g),
       [],
       u ''Option 2 '' @ [8594] @ u '' g4f + DuckDuckGo'',
       u ''Total Requests: '' @ str_int (g4f_requests g),
       [],
       current]"
    unfolding report_def status_lines cur ..
  have "filter (py_in (u ''Current Model'')) (py_lines report) = [current]"
    unfolding lines
    using requests_line_no_current [of "deepinfra_requests g"]
      requests_line_no_current [of "g4f_requests g"]
      current_line_has_current [of OWNER_ID g user_id]
    by (simp add: cur)
  with result lines show ?thesis by blast
qed

theorem status_report_witness:
  "filter (py_in (u ''Current Model''))
     (py_lines (fst (handle_status_command (Some (u ''42''))
        \<lparr>current_option = 1, owner_temp_option = Some 2, deepinfra_requests = 12, g4f_requests = 3\<rparr>
        (IdInt 42)))) =
     [u ''Current Model: Option 2 (temporary for owner)''] \<and>
   py_lines (fst (handle_status_command (Some (u ''42''))
        \<lparr>current_option = 1, owner_temp_option = Some 2, deepinfra_requests = 12, g4f_requests = 3\<rparr>
        (IdInt 7))) =
     [[128202] @ u '' Model Status'',
      [],
      u ''Option 1 '' @ [8594] @ u '' DeepInfra'',
      u ''Total Requests: 12'',
      [],
      u ''Option 2 '' @ [8594] @ u '' g4f + DuckDuckGo'',
      u ''Total Requests: 3'',
      [],
      u ''Current Model: Option 1'']"
proof -
  define g where "g =
    \<lparr>current_option = 1, owner_temp_option = Some 2, deepinfra_requests = 12, g4f_requests = 3\<rparr>"
  have ok: "owner_temp_option g \<noteq> Some 0"
    by (simp add: g_def)
  have digits: "str_int 12 = u ''12''" "str_int 3 = u ''3''" "str_int 42 = u ''42''"
    "str_int 7 = u ''7''"
    by (simp_all add: str_int_def str_nat.simps)
  have a: "filter (py_in (u ''Current Model''))
      (py_lines (fst (handle_status_command (Some (u ''42'')) g (IdInt 42)))) =
      [u ''Current Model: Option 2 (temporary for owner)'']"
    using status_report [OF ok refl, where user_id = "IdInt 42" and OWNER_ID = "Some (u ''42'')"]
    by (auto simp add: g_def str_owner_def digits str_int_2)
  have b: "py_lines (fst (handle_status_command (Some (u ''42'')) g (IdInt 7))) =
     [[128202] @ u '' Model Status'',
      [],
      u ''Option 1 '' @ [8594] @ u '' DeepInfra'',
      u ''Total Requests: 12'',
      [],
      u ''Option 2 '' @ [8594] @ u '' g4f + DuckDuckGo'',
      u ''Total Requests: 3'',
      [],
      u ''Current Model: Option 1'']"
    using status_report [OF ok refl, where user_id = "IdInt 7" and OWNER_ID = "Some (u ''42'')"]
    by (auto simp add: g_def str_owner_def digits str_int_1)
  from a b show ?thesis unfolding g_def by blast
qed

subsection \<open>Two permanent changes, then the status\<close>

text \<open>
  C8. From any globals, \<open>/fixoption 1\<close> and then \<open>/fixoption 2\<close>, both sent by a caller
  whose identity equals \<open>str(OWNER_ID)\<close>, followed by a status call of any caller, give a
  report whose \<open>Current Model\<close> line is \<open>Current Model: Option 2\<close> and whose two counter
  lines show the counters as they were before the two commands; the counters in the
  globals are unchanged as well.
\<close>

theorem fix_1_fix_2_status:
  assumes "py_str user_id = str_owner OWNER_ID"
    and "g1 = snd (handle_option_command OWNER_ID g user_id (u ''/fixoption 1''))"
    and "g2 = snd (handle_option_command OWNER_ID g1 user_id (u ''/fixoption 2''))"
    and "handle_status_command OWNER_ID g2 caller = (report, g3)"
  shows
   "py_lines report =
      [[128202] @ u '' Model Status'',
       [],
       u ''Option 1 '' @ [8594] @ u '' DeepInfra'',
       u ''Total Requests: '' @ str_int (deepinfra_requests g),
       [],
       u ''Option 2 '' @ [8594] @ u '' g4f + DuckDuckGo'',
       u ''Total Requests: '' @ str_int (g4f_requests g),
       [],
       u ''Current Model: Option 2''] \<and>
    current_option g3 = 2 \<and> owner_temp_option g3 = None \<and>
    deepinfra_requests g3 = deepinfra_requests g \<and> g4f_requests g3 = g4f_requests g"
proof -
  have g1: "g1 = g\<lparr>current_option := 1, owner_temp_option := None\<rparr>"
    using handle_fix [OF assms(1) parse_fix_1, of g] assms(2) by (simp add: py_int_def)
  have g2: "g2 = g\<lparr>current_option := 2, owner_temp_option := None\<rparr>"
    using handle_fix [OF assms(1) parse_fix_2, of g1] assms(3) by (simp add: py_int_def g1)
  have report: "report = fst (handle_status_command OWNER_ID g2 caller)"
    using assms(4) by simp
  have g3: "g3 = g2"
    using assms(4) by (simp add: handle_status_command_def)
  have cur: "current_line OWNER_ID g2 caller = u ''Current Model: Option 2''"
    by (simp add: current_line_def g2 temp_active_def str_int_2)
  show ?thesis
    unfolding report status_lines cur g3 by (simp add: g2)
qed

theorem fix_1_fix_2_status_witness:
  "py_str (IdStr (u ''42'')) = str_owner (Some (u ''42'')) \<and>
   py_lines (fst (handle_status_command (Some (u ''42''))
     (after_command (Some (u ''42''))
        (after_command (Some (u ''42''))
           \<lparr>current_option = 1, owner_temp_option = Some 1, deepinfra_requests = 12, g4f_requests = 3\<rparr>
           (IdStr (u ''42'')) (u ''/fixoption 1''))
        (IdStr (u ''42'')) (u ''/fixoption 2''))
     (IdInt 7))) =
     [[128202] @ u '' Model Status'',
      [],
      u ''Option 1 '' @ [8594] @ u '' DeepInfra'',
      u ''Total Requests: 12'',
      [],
      u ''Option 2 '' @ [8594] @ u '' g4f + DuckDuckGo'',
      u ''Total Requests: 3'',
      [],
      u ''Current Model: Option 2'']"
proof -
  have owner: "py_str (IdStr (u ''42'')) = str_owner (Some (u ''42''))"
    by (simp add: str_owner_def)
  have digits: "str_int 12 = u ''12''" "str_int 3 = u ''3''"
    by (simp_all add: str_int_def str_nat.simps)
  from fix_1_fix_2_status [OF owner refl refl surjective_pairing,
      where g = "\<lparr>current_option = 1, owner_temp_option = Some 1, deepinfra_requests = 12, g4f_requests = 3\<rparr>"
      and caller = "IdInt 7"]
  show ?thesis
    unfolding after_command_def by (simp add: digits str_owner_def)
qed

subsection \<open>Running the two provider clients on the sample collaborators\<close>

lemma sample_deepinfra:
  "deepinfra_response sample_env g sample_history =
     (PStr (u ''The capital of France is Paris.''),
      g\<lparr>deepinfra_requests := deepinfra_requests g + 1\<rparr>,
      [Post sample_history])"
  by (simp add: deepinfra_response_def deepinfra_try_def sample_env_def sample_completion_def
      content_of_def and_then_def dict_get_def)

lemma sample_g4f:
  "g4f_response sample_env g sample_history =
     (PStr (u ''Paris is the capital of France.''),
      g\<lparr>g4f_requests := g4f_requests g + 1\<rparr>,
      [Create sample_history, Search (u ''What is the capital of France?''), Create sample_retry])"
  by (simp add: g4f_response_def g4f_try_def sample_env_def sample_history_def
      sample_results_def sample_retry_def dict_get_def low_confidence_def
      retry_messages_def combined_prompt_def Let_def)

lemma sample_clients_differ:
  "g4f_response sample_env g sample_history \<noteq> deepinfra_response sample_env g sample_history"
  by (simp add: sample_g4f sample_deepinfra)

subsection \<open>Response router\<close>

text \<open>
  C1, as the code has it. The router tests the truth value of \<open>user_id\<close> before the
  comparison, so an identity that is present but false in a condition (the empty string,
  the number 0) is routed like an absent one. For every routing call: if the caller
  identity is absent, empty or zero, or its string form differs from \<open>str(OWNER_ID)\<close>, or
  the override is unset, the router dispatches by \<open>current_option\<close> (the g4f client when it
  is 2, the DeepInfra client otherwise); if the identity is neither absent, empty nor
  zero, equals \<open>str(OWNER_ID)\<close> as a string, and the override is set (to a value other
  than 0; the controller stores only 1 or 2), the router dispatches by the override.
  After \<open>/tryoption 1\<close> from such an owner while \<open>current_option\<close> is 2, the owner's
  routing call uses the DeepInfra client and every other caller's uses the g4f client.
\<close>

theorem router_selection:
  "(\<not> truthy user_id \<or> py_str user_id \<noteq> str_owner OWNER_ID \<or> owner_temp_option g = None \<longrightarrow>
      get_ai_response e OWNER_ID g history user_id =
        (if current_option g = 2 then g4f_response e g history
         else deepinfra_response e g history)) \<and>
   (truthy user_id \<and> py_str user_id = str_owner OWNER_ID \<and>
    owner_temp_option g = Some v \<and> v \<noteq> 0 \<longrightarrow>
      get_ai_response e OWNER_ID g history user_id =
        (if v = 2 then g4f_response e g history else deepinfra_response e g history)) \<and>
   (truthy user_id \<and> py_str user_id = str_owner OWNER_ID \<and> current_option g = 2 \<longrightarrow>
      (let g' = snd (handle_option_command OWNER_ID g user_id (u ''/tryoption 1'')) in
       get_ai_response e OWNER_ID g' history user_id = deepinfra_response e g' history \<and>
       (\<forall>other. py_str other \<noteq> str_owner OWNER_ID \<longrightarrow>
          get_ai_response e OWNER_ID g' history other = g4f_response e g' history)))"
proof (intro conjI impI)
  assume "\<not> truthy user_id \<or> py_str user_id \<noteq> str_owner OWNER_ID \<or> owner_temp_option g = None"
  then have "\<not> truthy user_id \<or> py_str user_id \<noteq> str_owner OWNER_ID \<or>
      \<not> temp_active (owner_temp_option g)"
    by (auto simp add: temp_active_def)
  then show "get_ai_response e OWNER_ID g history user_id =
      (if current_option g = 2 then g4f_response e g history else deepinfra_response e g history)"
    by (rule route_global)
next
  assume "truthy user_id \<and> py_str user_id = str_owner OWNER_ID \<and>
    owner_temp_option g = Some v \<and> v \<noteq> 0"
  then show "get_ai_response e OWNER_ID g history user_id =
      (if v = 2 then g4f_response e g history else deepinfra_response e g history)"
    by (simp add: route_override)
next
  assume a: "truthy user_id \<and> py_str user_id = str_owner OWNER_ID \<and> current_option g = 2"
  define g' where "g' = snd (handle_option_command OWNER_ID g user_id (u ''/tryoption 1''))"
  have g': "g' = g\<lparr>owner_temp_option := Some 1\<rparr>"
    using a handle_try [OF _ parse_try_1, of user_id OWNER_ID g]
    by (simp add: g'_def py_int_def)
  have owner: "get_ai_response e OWNER_ID g' history user_id = deepinfra_response e g' history"
    using a route_override [of user_id OWNER_ID g' 1 e history] by (simp add: g')
  have others: "get_ai_response e OWNER_ID g' history other = g4f_response e g' history"
    if "py_str other \<noteq> str_owner OWNER_ID" for other
    using a that route_global [of other OWNER_ID g' e history] by (simp add: g')
  from owner others
  show "let g' = snd (handle_option_command OWNER_ID g user_id (u ''/tryoption 1'')) in
       get_ai_response e OWNER_ID g' history user_id = deepinfra_response e g' history \<and>
       (\<forall>other. py_str other \<noteq> str_owner OWNER_ID \<longrightarrow>
          get_ai_response e OWNER_ID g' history other = g4f_response e g' history)"
    unfolding Let_def g'_def [symmetric] by simp
qed

theorem router_selection_witness:
  "get_ai_response sample_env (Some (u ''42''))
     (secondary_globals\<lparr>owner_temp_option := Some 1\<rparr>) sample_history IdNone =
     g4f_response sample_env (secondary_globals\<lparr>owner_temp_option := Some 1\<rparr>) sample_history \<and>
   get_ai_response sample_env (Some (u ''42''))
     (secondary_globals\<lparr>owner_temp_option := Some 1\<rparr>) sample_history (IdInt 42) =
     deepinfra_response sample_env (secondary_globals\<lparr>owner_temp_option := Some 1\<rparr>) sample_history \<and>
   get_ai_response sample_env (Some (u ''42''))
     (after_command (Some (u ''42'')) secondary_globals (IdInt 42) (u ''/tryoption 1''))
     sample_history (IdInt 42) =
     deepinfra_response sample_env
       (after_command (Some (u ''42'')) secondary_globals (IdInt 42) (u ''/tryoption 1''))
       sample_history \<and>
   get_ai_response sample_env (Some (u ''42''))
     (after_command (Some (u ''42'')) secondary_globals (IdInt 42) (u ''/tryoption 1''))
     sample_history (IdInt 7) =
     g4f_response sample_env
       (after_command (Some (u ''42'')) secondary_globals (IdInt 42) (u ''/tryoption 1''))
       sample_history"
proof -
  have owner: "truthy (IdInt 42)" "py_str (IdInt 42) = str_owner (Some (u ''42''))"
    by (simp_all add: str_owner_def str_int_def str_nat.simps)
  have other: "py_str (IdInt 7) \<noteq> str_owner (Some (u ''42''))"
    by (simp add: str_owner_def str_int_def str_nat.simps)
  have st: "current_option secondary_globals = 2"
    "current_option (secondary_globals\<lparr>owner_temp_option := Some 1\<rparr>) = 2"
    "owner_temp_option (secondary_globals\<lparr>owner_temp_option := Some 1\<rparr>) = Some 1"
    by (simp_all add: secondary_globals_def)
  note t1 = router_selection [where user_id = IdNone and OWNER_ID = "Some (u ''42'')"
      and g = "secondary_globals\<lparr>owner_temp_option := Some 1\<rparr>" and e = sample_env
      and history = sample_history]
  note t2 = router_selection [where user_id = "IdInt 42" and OWNER_ID = "Some (u ''42'')"
      and g = "secondary_globals\<lparr>owner_temp_option := Some 1\<rparr>" and e = sample_env
      and history = sample_history and v = 1]
  note t3 = router_selection [where user_id = "IdInt 42" and OWNER_ID = "Some (u ''42'')"
      and g = secondary_globals and e = sample_env and history = sample_history]
  have a: "get_ai_response sample_env (Some (u ''42''))
     (secondary_globals\<lparr>owner_temp_option := Some 1\<rparr>) sample_history IdNone =
     g4f_response sample_env (secondary_globals\<lparr>owner_temp_option := Some 1\<rparr>) sample_history"
    using t1 st by simp
  have b: "get_ai_response sample_env (Some (u ''42''))
     (secondary_globals\<lparr>owner_temp_option := Some 1\<rparr>) sample_history (IdInt 42) =
     deepinfra_response sample_env (secondary_globals\<lparr>owner_temp_option := Some 1\<rparr>) sample_history"
    using t2 st owner by simp
  have c: "get_ai_response sample_env (Some (u ''42''))
     (after_command (Some (u ''42'')) secondary_globals (IdInt 42) (u ''/tryoption 1''))
     sample_history (IdInt 42) =
     deepinfra_response sample_env
       (after_command (Some (u ''42'')) secondary_globals (IdInt 42) (u ''/tryoption 1''))
       sample_history"
    and d: "\<forall>other. py_str other \<noteq> str_owner (Some (u ''42'')) \<longrightarrow>
     get_ai_response sample_env (Some (u ''42''))
       (after_command (Some (u ''42'')) secondary_globals (IdInt 42) (u ''/tryoption 1''))
       sample_history other =
     g4f_response sample_env
       (after_command (Some (u ''42'')) secondary_globals (IdInt 42) (u ''/tryoption 1''))
       sample_history"
    using t3 st owner unfolding Let_def after_command_def by simp_all
  from d other have e: "get_ai_response sample_env (Some (u ''42''))
       (after_command (Some (u ''42'')) secondary_globals (IdInt 42) (u ''/tryoption 1''))
       sample_history (IdInt 7) =
     g4f_response sample_env
       (after_command (Some (u ''42'')) secondary_globals (IdInt 42) (u ''/tryoption 1''))
       sample_history"
    by blast
  from a b c e show ?thesis by blast
qed

text \<open>
  C1 as stated fails: with \<open>OWNER_ID = "0"\<close> the caller \<open>0\<close> is present and equal to the
  owner as a string, and the controller accepts its \<open>/tryoption 1\<close> while
  \<open>current_option\<close> is 2; its routing call still goes to the g4f client, not to DeepInfra.
\<close>

theorem router_selection_counterexample:
  "py_str (IdInt 0) = str_owner (Some (u ''0'')) \<and>
   handle_option_command (Some (u ''0'')) secondary_globals (IdInt 0) (u ''/tryoption 1'') =
     (temporary_switched 1, secondary_globals\<lparr>owner_temp_option := Some 1\<rparr>) \<and>
   get_ai_response sample_env (Some (u ''0''))
     (secondary_globals\<lparr>owner_temp_option := Some 1\<rparr>) sample_history (IdInt 0) =
     g4f_response sample_env (secondary_globals\<lparr>owner_temp_option := Some 1\<rparr>) sample_history \<and>
   get_ai_response sample_env (Some (u ''0''))
     (secondary_globals\<lparr>owner_temp_option := Some 1\<rparr>) sample_history (IdInt 0) \<noteq>
     deepinfra_response sample_env (secondary_globals\<lparr>owner_temp_option := Some 1\<rparr>) sample_history"
proof -
  have owner: "py_str (IdInt 0) = str_owner (Some (u ''0''))"
    by (simp add: str_owner_def str_int_def str_nat.simps)
  have cmd: "handle_option_command (Some (u ''0'')) secondary_globals (IdInt 0) (u ''/tryoption 1'') =
     (temporary_switched 1, secondary_globals\<lparr>owner_temp_option := Some 1\<rparr>)"
    using handle_try [OF owner parse_try_1, of secondary_globals] by (simp add: py_int_def)
  have route: "get_ai_response sample_env (Some (u ''0''))
     (secondary_globals\<lparr>owner_temp_option := Some 1\<rparr>) sample_history (IdInt 0) =
     g4f_response sample_env (secondary_globals\<lparr>owner_temp_option := Some 1\<rparr>) sample_history"
    by (simp add: get_ai_response_def option_to_use_def secondary_globals_def)
  from owner cmd route sample_clients_differ [of "secondary_globals\<lparr>owner_temp_option := Some 1\<rparr>"]
  show ?thesis by simp
qed

subsection \<open>The owner check of the three entry points\<close>

lemma owner_only_differs:
  "owner_only \<noteq> usage" "owner_only \<noteq> invalid_option"
  "owner_only \<noteq> temporary_switched v" "owner_only \<noteq> permanently_changed v"
  by (simp_all add: owner_only_def usage_def invalid_option_def temporary_switched_def
      permanently_changed_def)

lemma controller_refusal_iff:
  "fst (handle_option_command OWNER_ID g user_id command) = owner_only \<longleftrightarrow>
   py_str user_id \<noteq> str_owner OWNER_ID"
  using owner_only_differs [symmetric]
  by (simp add: handle_option_command_def Let_def)

lemma unlabelled_differs:
  "u ''Current Model: Option '' @ str_int c \<noteq>
   u ''Current Model: Option '' @ str_int v @ u '' (temporary for owner)''"
proof
  assume "u ''Current Model: Option '' @ str_int c =
    u ''Current Model: Option '' @ str_int v @ u '' (temporary for owner)''"
  then have "str_int c = str_int v @ u '' (temporary for owner)''"
    by simp
  then have "32 \<in> set (str_int c)"
    by simp
  then show False
    using no_space_str_int [of c] by simp
qed

text \<open>
  C10, as the code has it. The option controller refuses exactly the callers with
  \<open>str(user_id) \<noteq> str(OWNER_ID)\<close>, and the status reporter labels the override for
  exactly the callers with \<open>str(user_id) = str(OWNER_ID)\<close>; the router uses the override
  for exactly the callers with \<open>str(user_id) = str(OWNER_ID)\<close> whose \<open>user_id\<close> is also
  true in a condition. \<open>OWNER_ID\<close> is a parameter read once. When it is \<open>None\<close> the
  comparison is against the text \<open>None\<close>, so a caller whose identity has the string form
  \<open>None\<close> passes the controller's check and changes the selection.
\<close>

theorem owner_check:
  "(fst (handle_option_command OWNER_ID g user_id command) = owner_only \<longleftrightarrow>
      py_str user_id \<noteq> str_owner OWNER_ID) \<and>
   (owner_temp_option g = Some v \<and> v \<noteq> 0 \<longrightarrow>
      (last (py_lines (fst (handle_status_command OWNER_ID g user_id))) =
         u ''Current Model: Option '' @ str_int v @ u '' (temporary for owner)'' \<longleftrightarrow>
       py_str user_id = str_owner OWNER_ID)) \<and>
   (owner_temp_option g = Some v \<and> v \<noteq> 0 \<and> v \<noteq> current_option g \<longrightarrow>
      (option_to_use OWNER_ID g user_id = v \<longleftrightarrow>
       truthy user_id \<and> py_str user_id = str_owner OWNER_ID)) \<and>
   str_owner None = u ''None'' \<and>
   (py_str user_id = u ''None'' \<longrightarrow>
      handle_option_command None g user_id (u ''/fixoption 2'') =
        (permanently_changed 2, g\<lparr>current_option := 2, owner_temp_option := None\<rparr>) \<and>
      handle_option_command None g user_id (u ''/tryoption 2'') =
        (temporary_switched 2, g\<lparr>owner_temp_option := Some 2\<rparr>))"
proof (intro conjI impI)
  show "fst (handle_option_command OWNER_ID g user_id command) = owner_only \<longleftrightarrow>
      py_str user_id \<noteq> str_owner OWNER_ID"
    by (rule controller_refusal_iff)
next
  assume a: "owner_temp_option g = Some v \<and> v \<noteq> 0"
  have "last (py_lines (fst (handle_status_command OWNER_ID g user_id))) =
      current_line OWNER_ID g user_id"
    by (simp add: status_lines)
  moreover have "current_line OWNER_ID g user_id =
      u ''Current Model: Option '' @ str_int v @ u '' (temporary for owner)'' \<longleftrightarrow>
      py_str user_id = str_owner OWNER_ID"
    using a unlabelled_differs [of "current_option g" v]
    by (simp add: current_line_def temp_active_def)
  ultimately show "last (py_lines (fst (handle_status_command OWNER_ID g user_id))) =
         u ''Current Model: Option '' @ str_int v @ u '' (temporary for owner)'' \<longleftrightarrow>
       py_str user_id = str_owner OWNER_ID"
    by simp
next
  assume "owner_temp_option g = Some v \<and> v \<noteq> 0 \<and> v \<noteq> current_option g"
  then show "option_to_use OWNER_ID g user_id = v \<longleftrightarrow>
       truthy user_id \<and> py_str user_id = str_owner OWNER_ID"
    by (auto simp add: option_to_use_def temp_active_def)
next
  show "str_owner None = u ''None''"
    by (simp add: str_owner_def)
next
  assume "py_str user_id = u ''None''"
  then have owner: "py_str user_id = str_owner None"
    by (simp add: str_owner_def)
  show "handle_option_command None g user_id (u ''/fixoption 2'') =
        (permanently_changed 2, g\<lparr>current_option := 2, owner_temp_option := None\<rparr>)"
    using handle_fix [OF owner parse_fix_2, of g] by (simp add: py_int_def)
  show "handle_option_command None g user_id (u ''/tryoption 2'') =
        (temporary_switched 2, g\<lparr>owner_temp_option := Some 2\<rparr>)"
    using handle_try [OF owner parse_try_2, of g] by (simp add: py_int_def)
qed

theorem owner_check_witness:
  "last (py_lines (fst (handle_status_command None
      (initial_globals\<lparr>owner_temp_option := Some 2\<rparr>) (IdStr (u ''None''))))) =
     u ''Current Model: Option 2 (temporary for owner)'' \<and>
   option_to_use None (initial_globals\<lparr>owner_temp_option := Some 2\<rparr>) (IdStr (u ''None'')) = 2 \<and>
   handle_option_command None initial_globals (IdStr (u ''None'')) (u ''/fixoption 2'') =
     (permanently_changed 2, initial_globals\<lparr>current_option := 2, owner_temp_option := None\<rparr>) \<and>
   handle_option_command None initial_globals (IdStr (u ''None'')) (u ''/tryoption 2'') =
     (temporary_switched 2, initial_globals\<lparr>owner_temp_option := Some 2\<rparr>)"
proof -
  have owner: "py_str (IdStr (u ''None'')) = str_owner None" "truthy (IdStr (u ''None''))"
    by (simp_all add: str_owner_def)
  have st: "owner_temp_option (initial_globals\<lparr>owner_temp_option := Some 2\<rparr>) = Some 2"
    "current_option (initial_globals\<lparr>owner_temp_option := Some 2\<rparr>) = 1"
    by (simp_all add: initial_globals_def)
  note t1 = owner_check [where OWNER_ID = None and user_id = "IdStr (u ''None'')" and v = 2
      and g = "initial_globals\<lparr>owner_temp_option := Some 2\<rparr>"]
  note t2 = owner_check [where OWNER_ID = None and user_id = "IdStr (u ''None'')"
      and g = initial_globals]
  have a: "last (py_lines (fst (handle_status_command None
      (initial_globals\<lparr>owner_temp_option := Some 2\<rparr>) (IdStr (u ''None''))))) =
     u ''Current Model: Option 2 (temporary for owner)''"
    using t1 st owner by (simp add: str_int_2)
  have b: "option_to_use None (initial_globals\<lparr>owner_temp_option := Some 2\<rparr>)
      (IdStr (u ''None'')) = 2"
    using t1 st owner by simp
  have c: "handle_option_command None initial_globals (IdStr (u ''None'')) (u ''/fixoption 2'') =
     (permanently_changed 2, initial_globals\<lparr>current_option := 2, owner_temp_option := None\<rparr>)"
    and d: "handle_option_command None initial_globals (IdStr (u ''None'')) (u ''/tryoption 2'') =
     (temporary_switched 2, initial_globals\<lparr>owner_temp_option := Some 2\<rparr>)"
    using t2 by simp_all
  from a b c d show ?thesis by blast
qed

text \<open>
  C10 as stated fails for the router: with \<open>OWNER_ID\<close> unset, a call without \<open>user_id\<close>
  has \<open>str(user_id) = str(OWNER_ID)\<close>; the controller accepts its \<open>/tryoption 2\<close> and the
  status reporter shows it the override, but the router does not use the override.
\<close>

theorem owner_check_counterexample:
  "py_str IdNone = str_owner None \<and>
   handle_option_command None initial_globals IdNone (u ''/tryoption 2'') =
     (temporary_switched 2, initial_globals\<lparr>owner_temp_option := Some 2\<rparr>) \<and>
   last (py_lines (fst (handle_status_command None
      (initial_globals\<lparr>owner_temp_option := Some 2\<rparr>) IdNone))) =
     u ''Current Model: Option 2 (temporary for owner)'' \<and>
   option_to_use None (initial_globals\<lparr>owner_temp_option := Some 2\<rparr>) IdNone = 1 \<and>
   get_ai_response sample_env None (initial_globals\<lparr>owner_temp_option := Some 2\<rparr>)
     sample_history IdNone =
     deepinfra_response sample_env (initial_globals\<lparr>owner_temp_option := Some 2\<rparr>) sample_history \<and>
   get_ai_response sample_env None (initial_globals\<lparr>owner_temp_option := Some 2\<rparr>)
     sample_history IdNone \<noteq>
     g4f_response sample_env (initial_globals\<lparr>owner_temp_option := Some 2\<rparr>) sample_history"
proof -
  have owner: "py_str IdNone = str_owner None"
    by (simp add: str_owner_def)
  have cmd: "handle_option_command None initial_globals IdNone (u ''/tryoption 2'') =
     (temporary_switched 2, initial_globals\<lparr>owner_temp_option := Some 2\<rparr>)"
    using handle_try [OF owner parse_try_2, of initial_globals] by (simp add: py_int_def)
  have status: "last (py_lines (fst (handle_status_command None
      (initial_globals\<lparr>owner_temp_option := Some 2\<rparr>) IdNone))) =
     u ''Current Model: Option 2 (temporary for owner)''"
    by (simp add: status_lines current_line_def str_owner_def temp_active_def
        initial_globals_def str_int_2)
  have opt: "option_to_use None (initial_globals\<lparr>owner_temp_option := Some 2\<rparr>) IdNone = 1"
    by (simp add: option_to_use_def initial_globals_def)
  then have route: "get_ai_response sample_env None (initial_globals\<lparr>owner_temp_option := Some 2\<rparr>)
     sample_history IdNone =
     deepinfra_response sample_env (initial_globals\<lparr>owner_temp_option := Some 2\<rparr>) sample_history"
    by (simp add: get_ai_response_def)
  from owner cmd status opt route
    sample_clients_differ [of "initial_globals\<lparr>owner_temp_option := Some 2\<rparr>"]
  show ?thesis by simp
qed

subsection \<open>DeepInfra client: when the counter is incremented\<close>

text \<open>
  \<open>data["choices"][0]["message"]["content"]\<close> returns exactly when \<open>data\<close> is an object
  whose \<open>choices\<close> is a non-empty list, whose first choice is an object with an object
  \<open>message\<close> that has a \<open>content\<close>.
\<close>

lemma getitem_key_Inr: "getitem_key v k = Inr w \<longleftrightarrow> (\<exists>d. v = PDict d \<and> map_of d k = Some w)"
  by (cases v) (auto simp add: dict_get_def split: option.splits)

lemma getitem_0_PList: "getitem_0 v = Inr (PDict d) \<longleftrightarrow> (\<exists>rest. v = PList (PDict d # rest))"
  by (cases v) (auto split: list.splits)

lemma content_of_Inr:
  "content_of data = Inr content \<longleftrightarrow>
   (\<exists>d cd md rest.
      data = PDict d \<and> map_of d (u ''choices'') = Some (PList (PDict cd # rest)) \<and>
      map_of cd (u ''message'') = Some (PDict md) \<and> map_of md (u ''content'') = Some content)"
proof
  assume a: "content_of data = Inr content"
  then obtain choices where 1: "getitem_key data (u ''choices'') = Inr choices"
    by (auto simp add: content_of_def and_then_def split: sum.splits)
  with a obtain choice where 2: "getitem_0 choices = Inr choice"
    by (auto simp add: content_of_def and_then_def split: sum.splits)
  with a 1 obtain msg where 3: "getitem_key choice (u ''message'') = Inr msg"
    by (auto simp add: content_of_def and_then_def split: sum.splits)
  with a 1 2 have 4: "getitem_key msg (u ''content'') = Inr content"
    by (auto simp add: content_of_def and_then_def split: sum.splits)
  from 1 obtain d where d: "data = PDict d" "map_of d (u ''choices'') = Some choices"
    unfolding getitem_key_Inr by blast
  from 3 obtain cd where cd: "choice = PDict cd" "map_of cd (u ''message'') = Some msg"
    unfolding getitem_key_Inr by blast
  from 4 obtain md where md: "msg = PDict md" "map_of md (u ''content'') = Some content"
    unfolding getitem_key_Inr by blast
  from 2 cd(1) have "getitem_0 choices = Inr (PDict cd)"
    by simp
  then obtain rest where "choices = PList (PDict cd # rest)"
    unfolding getitem_0_PList by blast
  with d cd md show "\<exists>d cd md rest.
      data = PDict d \<and> map_of d (u ''choices'') = Some (PList (PDict cd # rest)) \<and>
      map_of cd (u ''message'') = Some (PDict md) \<and> map_of md (u ''content'') = Some content"
    by blast
next
  assume "\<exists>d cd md rest.
      data = PDict d \<and> map_of d (u ''choices'') = Some (PList (PDict cd # rest)) \<and>
      map_of cd (u ''message'') = Some (PDict md) \<and> map_of md (u ''content'') = Some content"
  then show "content_of data = Inr content"
    by (auto simp add: content_of_def and_then_def dict_get_def)
qed

text \<open>
  C2, as the code has it. The counter of the DeepInfra client is incremented after the
  network call has returned a response and \<open>response.json()\<close> has parsed its body, before
  the content is looked up. So a failure of the lookup in a parsed body still increments
  the counter (and the apology is returned); on the success path the counter is
  incremented exactly once and the content is returned; when the network call itself
  fails, or the body of its response is not JSON, the counter is not incremented and the
  fixed apology string is returned.
\<close>

theorem deepinfra_counter:
  "(requests_post e history = Inl x \<longrightarrow>
      deepinfra_response e g history = (PStr deepinfra_apology, g, [Post history])) \<and>
   (requests_post e history = Inr response \<and> json response = Inl x \<longrightarrow>
      deepinfra_response e g history = (PStr deepinfra_apology, g, [Post history])) \<and>
   (requests_post e history = Inr response \<and> json response = Inr data \<and>
    content_of data = Inl x \<longrightarrow>
      deepinfra_response e g history =
        (PStr deepinfra_apology, g\<lparr>deepinfra_requests := deepinfra_requests g + 1\<rparr>,
         [Post history])) \<and>
   (requests_post e history = Inr response \<and> json response = Inr data \<and>
    content_of data = Inr content \<longrightarrow>
      deepinfra_response e g history =
        (content, g\<lparr>deepinfra_requests := deepinfra_requests g + 1\<rparr>, [Post history]))"
  by (simp add: deepinfra_response_def deepinfra_try_def)

theorem deepinfra_counter_witness:
  "deepinfra_response (sample_env\<lparr>requests_post := \<lambda>h. Inl (OtherException (u ''Connection refused''))\<rparr>)
     initial_globals sample_history =
     (PStr deepinfra_apology, initial_globals, [Post sample_history]) \<and>
   deepinfra_response (sample_env\<lparr>requests_post := \<lambda>h. Inr bad_gateway\<rparr>)
     initial_globals sample_history =
     (PStr deepinfra_apology, initial_globals, [Post sample_history]) \<and>
   deepinfra_response
     (sample_env\<lparr>requests_post := \<lambda>h. Inr \<lparr>status_code = 429, status_error = [],
        json = Inr (PDict [(u ''error'', PStr (u ''rate limited''))])\<rparr>\<rparr>)
     initial_globals sample_history =
     (PStr deepinfra_apology, initial_globals\<lparr>deepinfra_requests := 1\<rparr>, [Post sample_history]) \<and>
   deepinfra_response sample_env initial_globals sample_history =
     (PStr (u ''The capital of France is Paris.''), initial_globals\<lparr>deepinfra_requests := 1\<rparr>,
      [Post sample_history])"
proof -
  have zero: "deepinfra_requests initial_globals = 0"
    by (simp add: initial_globals_def)
  have a: "deepinfra_response
      (sample_env\<lparr>requests_post := \<lambda>h. Inl (OtherException (u ''Connection refused''))\<rparr>)
      initial_globals sample_history =
     (PStr deepinfra_apology, initial_globals, [Post sample_history])"
    using deepinfra_counter
      [where e = "sample_env\<lparr>requests_post := \<lambda>h. Inl (OtherException (u ''Connection refused''))\<rparr>"
        and history = sample_history and g = initial_globals
        and x = "OtherException (u ''Connection refused'')"]
    by simp
  have b: "deepinfra_response (sample_env\<lparr>requests_post := \<lambda>h. Inr bad_gateway\<rparr>)
      initial_globals sample_history =
     (PStr deepinfra_apology, initial_globals, [Post sample_history])"
    using deepinfra_counter
      [where e = "sample_env\<lparr>requests_post := \<lambda>h. Inr bad_gateway\<rparr>"
        and history = sample_history and g = initial_globals and response = bad_gateway
        and x = "OtherException (u ''Expecting value: line 1 column 1 (char 0)'')"]
    by (simp add: bad_gateway_def)
  have c: "deepinfra_response
     (sample_env\<lparr>requests_post := \<lambda>h. Inr \<lparr>status_code = 429, status_error = [],
        json = Inr (PDict [(u ''error'', PStr (u ''rate limited''))])\<rparr>\<rparr>)
     initial_globals sample_history =
     (PStr deepinfra_apology, initial_globals\<lparr>deepinfra_requests := 1\<rparr>, [Post sample_history])"
    using deepinfra_counter
      [where e = "sample_env\<lparr>requests_post := \<lambda>h. Inr \<lparr>status_code = 429, status_error = [],
          json = Inr (PDict [(u ''error'', PStr (u ''rate limited''))])\<rparr>\<rparr>"
        and history = sample_history and g = initial_globals
        and response = "\<lparr>status_code = 429, status_error = [],
          json = Inr (PDict [(u ''error'', PStr (u ''rate limited''))])\<rparr>"
        and data = "PDict [(u ''error'', PStr (u ''rate limited''))]"
        and x = "KeyError (quoted (u ''choices''))"]
    by (simp add: content_of_def and_then_def dict_get_def zero)
  have d: "deepinfra_response sample_env initial_globals sample_history =
     (PStr (u ''The capital of France is Paris.''), initial_globals\<lparr>deepinfra_requests := 1\<rparr>,
      [Post sample_history])"
    using deepinfra_counter
      [where e = sample_env and history = sample_history and g = initial_globals
        and response = "\<lparr>status_code = 200, status_error = [], json = Inr sample_completion\<rparr>"
        and data = sample_completion
        and content = "PStr (u ''The capital of France is Paris.'')"]
    by (simp add: sample_env_def sample_completion_def content_of_def and_then_def dict_get_def zero)
  from a b c d show ?thesis by blast
qed

text \<open>
  C2 as stated fails: the network call succeeds with the error page of a gateway, whose
  body is not JSON; the counter stays at 0 and the apology is returned.
\<close>

theorem deepinfra_counter_counterexample:
  "requests_post (sample_env\<lparr>requests_post := \<lambda>h. Inr bad_gateway\<rparr>) sample_history =
     Inr bad_gateway \<and>
   deepinfra_requests initial_globals = 0 \<and>
   deepinfra_response (sample_env\<lparr>requests_post := \<lambda>h. Inr bad_gateway\<rparr>)
     initial_globals sample_history =
     (PStr deepinfra_apology, initial_globals, [Post sample_history])"
  by (simp add: deepinfra_response_def deepinfra_try_def bad_gateway_def initial_globals_def)

subsection \<open>g4f client: the search-augmented retry\<close>

lemma bodies_Inr:
  "bodies rs = Inr bs \<longleftrightarrow> map (\<lambda>r. map_of r (u ''body'')) rs = map Some bs"
proof (induction rs arbitrary: bs)
  case Nil
  show ?case by auto
next
  case (Cons r rs)
  show ?case
  proof (cases "map_of r (u ''body'')")
    case None
    then show ?thesis by (auto simp add: dict_get_def)
  next
    case (Some b)
    show ?thesis
    proof (cases "bodies rs")
      case (Inl x)
      with Cons Some show ?thesis
        by (cases bs) (auto simp add: dict_get_def)
    next
      case (Inr bs')
      with Cons [of bs'] Cons Some show ?thesis
        by (cases bs) (auto simp add: dict_get_def)
    qed
  qed
qed

lemma bodies_Inl:
  "\<exists>r\<in>set rs. map_of r (u ''body'') = None \<Longrightarrow>
   bodies rs = Inl (KeyError (quoted (u ''body'')))"
proof (induction rs)
  case Nil
  then show ?case by simp
next
  case (Cons r rs)
  show ?case
  proof (cases "map_of r (u ''body'')")
    case None
    then show ?thesis by (simp add: dict_get_def)
  next
    case (Some b)
    with Cons.prems have "\<exists>r\<in>set rs. map_of r (u ''body'') = None"
      by auto
    then have "bodies rs = Inl (KeyError (quoted (u ''body'')))"
      by (rule Cons.IH)
    with Some show ?thesis by (simp add: dict_get_def)
  qed
qed

text \<open>
  C5, as the code has it. In the g4f client, when the first completion contains
  \<open>I don't know\<close> or is shorter than 20 characters, the counter has been incremented
  exactly once and stays so whatever follows, and a web search for the extracted prompt
  is made. If the search returns and each of its first 3 results has a \<open>body\<close>, exactly
  one retry is made: a single user message holding the prompt, a blank line,
  \<open>Use this web info to answer:\<close> and the bodies joined by newlines, without the earlier
  history. If the retry returns, its text is the returned text. When the search raises,
  when one of its first 3 results has no \<open>body\<close>, or when the retry raises, the returned
  text is \<open>Error: \<close> followed by the text of the exception (for a missing body, the key
  \<open>'body'\<close> in quotes), and no further call is made.
\<close>

theorem g4f_fallback:
  assumes "client_init e = None"
    and "history = [] \<and> prompt = u ''Hello'' \<or>
         history \<noteq> [] \<and> map_of (last history) (u ''content'') = Some prompt"
    and "create e history = Inr response"
    and "py_in (u ''I don't know'') response \<or> length response < 20"
    and "retry =
      [[(u ''role'', u ''user''),
        (u ''content'',
         prompt @ [10, 10] @ u ''Use this web info to answer:'' @ [10] @ py_join [10] bs)]]"
  shows
   "fst (snd (g4f_response e g history)) = g\<lparr>g4f_requests := g4f_requests g + 1\<rparr> \<and>
    take 2 (snd (snd (g4f_response e g history))) = [Create history, Search prompt] \<and>
    (ddgs_text e prompt = Inl x \<longrightarrow>
       g4f_response e g history =
         (PStr (u ''Error: '' @ str_exn x), g\<lparr>g4f_requests := g4f_requests g + 1\<rparr>,
          [Create history, Search prompt])) \<and>
    (ddgs_text e prompt = Inr results \<and>
     (\<exists>r\<in>set (take 3 results). map_of r (u ''body'') = None) \<longrightarrow>
       g4f_response e g history =
         (PStr (u ''Error: '' @ [39] @ u ''body'' @ [39]),
          g\<lparr>g4f_requests := g4f_requests g + 1\<rparr>,
          [Create history, Search prompt])) \<and>
    (ddgs_text e prompt = Inr results \<and>
     map (\<lambda>r. map_of r (u ''body'')) (take 3 results) = map Some bs \<longrightarrow>
       snd (snd (g4f_response e g history)) = [Create history, Search prompt, Create retry] \<and>
       (create e retry = Inr response2 \<longrightarrow>
          g4f_response e g history =
            (PStr response2, g\<lparr>g4f_requests := g4f_requests g + 1\<rparr>,
             [Create history, Search prompt, Create retry])) \<and>
       (create e retry = Inl x \<longrightarrow>
          g4f_response e g history =
            (PStr (u ''Error: '' @ str_exn x), g\<lparr>g4f_requests := g4f_requests g + 1\<rparr>,
             [Create history, Search prompt, Create retry])))"
proof -
  have prompt: "(if history \<noteq> [] then dict_get (last history) (u ''content'')
      else Inr (u ''Hello'')) = Inr prompt"
    using assms(2) by (auto simp add: dict_get_def)
  have low: "low_confidence response"
    using assms(4) by (simp add: low_confidence_def)
  have retry: "retry_messages (combined_prompt prompt (py_join [10] bs)) = retry"
    by (simp add: retry_messages_def combined_prompt_def assms(5))
  have counter: "fst (snd (g4f_response e g history)) = g\<lparr>g4f_requests := g4f_requests g + 1\<rparr>"
    using assms(1) prompt assms(3) low
    by (simp add: g4f_response_def g4f_try_def Let_def split: sum.splits)
  have calls: "take 2 (snd (snd (g4f_response e g history))) = [Create history, Search prompt]"
    using assms(1) prompt assms(3) low
    by (simp add: g4f_response_def g4f_try_def Let_def split: sum.splits)
  have retried: "snd (snd (g4f_response e g history)) =
      [Create history, Search prompt, Create retry]"
    if "ddgs_text e prompt = Inr results"
      and "map (\<lambda>r. map_of r (u ''body'')) (take 3 results) = map Some bs"
  proof -
    have "bodies (take 3 results) = Inr bs"
      using that(2) by (simp add: bodies_Inr)
    with assms(1) prompt assms(3) low that(1) retry show ?thesis
      by (simp add: g4f_response_def g4f_try_def Let_def split: sum.splits)
  qed
  have returned: "g4f_response e g history =
      (PStr response2, g\<lparr>g4f_requests := g4f_requests g + 1\<rparr>,
       [Create history, Search prompt, Create retry])"
    if "ddgs_text e prompt = Inr results"
      and "map (\<lambda>r. map_of r (u ''body'')) (take 3 results) = map Some bs"
      and "create e retry = Inr response2"
  proof -
    have "bodies (take 3 results) = Inr bs"
      using that(2) by (simp add: bodies_Inr)
    with assms(1) prompt assms(3) low that(1) that(3) retry show ?thesis
      by (simp add: g4f_response_def g4f_try_def Let_def)
  qed
  have search_raised: "g4f_response e g history =
      (PStr (u ''Error: '' @ str_exn x), g\<lparr>g4f_requests := g4f_requests g + 1\<rparr>,
       [Create history, Search prompt])"
    if "ddgs_text e prompt = Inl x"
    using assms(1) prompt assms(3) low that
    by (simp add: g4f_response_def g4f_try_def Let_def)
  have no_body: "g4f_response e g history =
      (PStr (u ''Error: '' @ [39] @ u ''body'' @ [39]),
       g\<lparr>g4f_requests := g4f_requests g + 1\<rparr>,
       [Create history, Search prompt])"
    if "ddgs_text e prompt = Inr results"
      and "\<exists>r\<in>set (take 3 results). map_of r (u ''body'') = None"
  proof -
    have "bodies (take 3 results) = Inl (KeyError (quoted (u ''body'')))"
      using that(2) by (rule bodies_Inl)
    with assms(1) prompt assms(3) low that(1) show ?thesis
      by (simp add: g4f_response_def g4f_try_def Let_def quoted_def)
  qed
  have retry_raised: "g4f_response e g history =
      (PStr (u ''Error: '' @ str_exn x), g\<lparr>g4f_requests := g4f_requests g + 1\<rparr>,
       [Create history, Search prompt, Create retry])"
    if "ddgs_text e prompt = Inr results"
      and "map (\<lambda>r. map_of r (u ''body'')) (take 3 results) = map Some bs"
      and "create e retry = Inl x"
  proof -
    have "bodies (take 3 results) = Inr bs"
      using that(2) by (simp add: bodies_Inr)
    with assms(1) prompt assms(3) low that(1) that(3) retry show ?thesis
      by (simp add: g4f_response_def g4f_try_def Let_def)
  qed
  from counter calls retried returned search_raised no_body retry_raised
  show ?thesis by blast
qed

theorem g4f_fallback_witness:
  "g4f_requests initial_globals = 0 \<and>
   create sample_env sample_history = Inr (u ''I don't know.'') \<and>
   length (u ''I don't know.'') < 20 \<and>
   g4f_response sample_env initial_globals sample_history =
     (PStr (u ''Paris is the capital of France.''), initial_globals\<lparr>g4f_requests := 1\<rparr>,
      [Create sample_history, Search (u ''What is the capital of France?''), Create sample_retry]) \<and>
   g4f_response (sample_env\<lparr>ddgs_text := \<lambda>q. Inl (OtherException (u ''202 Ratelimit''))\<rparr>)
     initial_globals sample_history =
     (PStr (u ''Error: 202 Ratelimit''), initial_globals\<lparr>g4f_requests := 1\<rparr>,
      [Create sample_history, Search (u ''What is the capital of France?'')]) \<and>
   g4f_response (sample_env\<lparr>ddgs_text := \<lambda>q. Inr [[(u ''title'', u ''Paris'')]]\<rparr>)
     initial_globals sample_history =
     (PStr (u ''Error: '' @ [39] @ u ''body'' @ [39]), initial_globals\<lparr>g4f_requests := 1\<rparr>,
      [Create sample_history, Search (u ''What is the capital of France?'')]) \<and>
   g4f_response
     (sample_env\<lparr>create := \<lambda>ms. if ms = sample_history then Inr (u ''I don't know.'')
                                 else Inl (OtherException (u ''provider timed out''))\<rparr>)
     initial_globals sample_history =
     (PStr (u ''Error: provider timed out''), initial_globals\<lparr>g4f_requests := 1\<rparr>,
      [Create sample_history, Search (u ''What is the capital of France?''), Create sample_retry])"
proof -
  define e1 where "e1 = sample_env\<lparr>ddgs_text := \<lambda>q. Inl (OtherException (u ''202 Ratelimit''))\<rparr>"
  define e2 where "e2 = sample_env\<lparr>ddgs_text := \<lambda>q. Inr [[(u ''title'', u ''Paris'')]]\<rparr>"
  define e3 where "e3 =
    sample_env\<lparr>create := \<lambda>ms. if ms = sample_history then Inr (u ''I don't know.'')
                               else Inl (OtherException (u ''provider timed out''))\<rparr>"
  have zero: "g4f_requests initial_globals = 0"
    by (simp add: initial_globals_def)
  have client: "client_init sample_env = None" "client_init e1 = None" "client_init e2 = None"
    "client_init e3 = None"
    by (simp_all add: sample_env_def e1_def e2_def e3_def)
  have prompt: "sample_history = [] \<and> u ''What is the capital of France?'' = u ''Hello'' \<or>
      sample_history \<noteq> [] \<and>
      map_of (last sample_history) (u ''content'') = Some (u ''What is the capital of France?'')"
    by (simp add: sample_history_def)
  have first: "create sample_env sample_history = Inr (u ''I don't know.'')"
    "create e1 sample_history = Inr (u ''I don't know.'')"
    "create e2 sample_history = Inr (u ''I don't know.'')"
    "create e3 sample_history = Inr (u ''I don't know.'')"
    by (simp_all add: sample_env_def e1_def e2_def e3_def)
  have low: "py_in (u ''I don't know'') (u ''I don't know.'') \<or> length (u ''I don't know.'') < 20"
    by simp
  have retry: "sample_retry =
      [[(u ''role'', u ''user''),
        (u ''content'',
         u ''What is the capital of France?'' @ [10, 10] @ u ''Use this web info to answer:'' @
         [10] @
         py_join [10] [u ''Paris is the capital of France.'', u ''France is in Europe.'',
           u ''A capital is a seat of government.''])]]"
    by (simp add: sample_retry_def)
  have search: "ddgs_text sample_env (u ''What is the capital of France?'') = Inr sample_results"
    "ddgs_text e3 (u ''What is the capital of France?'') = Inr sample_results"
    by (simp_all add: sample_env_def e3_def)
  have found: "map (\<lambda>r. map_of r (u ''body'')) (take 3 sample_results) =
      map Some [u ''Paris is the capital of France.'', u ''France is in Europe.'',
        u ''A capital is a seat of government.'']"
    by (simp add: sample_results_def)
  have second: "create sample_env sample_retry = Inr (u ''Paris is the capital of France.'')"
    by (simp add: sample_env_def sample_retry_def sample_history_def)
  from g4f_fallback [OF client(1) prompt first(1) low retry, where g = initial_globals
      and results = sample_results and ?response2.0 = "u ''Paris is the capital of France.''"]
    search(1) found second
  have a: "g4f_response sample_env initial_globals sample_history =
     (PStr (u ''Paris is the capital of France.''),
      initial_globals\<lparr>g4f_requests := g4f_requests initial_globals + 1\<rparr>,
      [Create sample_history, Search (u ''What is the capital of France?''), Create sample_retry])"
    by blast
  have search1: "ddgs_text e1 (u ''What is the capital of France?'') =
      Inl (OtherException (u ''202 Ratelimit''))"
    by (simp add: e1_def)
  from g4f_fallback [OF client(2) prompt first(2) low retry, where g = initial_globals
      and x = "OtherException (u ''202 Ratelimit'')"] search1
  have b: "g4f_response e1 initial_globals sample_history =
     (PStr (u ''Error: '' @ str_exn (OtherException (u ''202 Ratelimit''))),
      initial_globals\<lparr>g4f_requests := g4f_requests initial_globals + 1\<rparr>,
      [Create sample_history, Search (u ''What is the capital of France?'')])"
    by blast
  have search2: "ddgs_text e2 (u ''What is the capital of France?'') =
      Inr [[(u ''title'', u ''Paris'')]]"
    and missing: "\<exists>r\<in>set (take 3 [[(u ''title'', u ''Paris'')]]). map_of r (u ''body'') = None"
    by (simp_all add: e2_def)
  from g4f_fallback [OF client(3) prompt first(3) low retry, where g = initial_globals
      and results = "[[(u ''title'', u ''Paris'')]]"] search2 missing
  have c: "g4f_response e2 initial_globals sample_history =
     (PStr (u ''Error: '' @ [39] @ u ''body'' @ [39]),
      initial_globals\<lparr>g4f_requests := g4f_requests initial_globals + 1\<rparr>,
      [Create sample_history, Search (u ''What is the capital of France?'')])"
    by blast
  have second3: "create e3 sample_retry = Inl (OtherException (u ''provider timed out''))"
    by (simp add: e3_def sample_retry_def sample_history_def)
  from g4f_fallback [OF client(4) prompt first(4) low retry, where g = initial_globals
      and results = sample_results and x = "OtherException (u ''provider timed out'')"]
    search(2) found second3
  have d: "g4f_response e3 initial_globals sample_history =
     (PStr (u ''Error: '' @ str_exn (OtherException (u ''provider timed out''))),
      initial_globals\<lparr>g4f_requests := g4f_requests initial_globals + 1\<rparr>,
      [Create sample_history, Search (u ''What is the capital of France?''), Create sample_retry])"
    by blast
  from zero first(1) a b c d show ?thesis
    unfolding e1_def e2_def e3_def by simp
qed

text \<open>
  C5 as stated fails: the first completion is \<open>I don't know.\<close> and the web search raises
  (the search service limits the rate). No retry is made and the returned text is the
  error text, not the text of a second completion.
\<close>

theorem g4f_fallback_counterexample:
  "create (sample_env\<lparr>ddgs_text := \<lambda>q. Inl (OtherException (u ''202 Ratelimit''))\<rparr>)
     sample_history = Inr (u ''I don't know.'') \<and>
   py_in (u ''I don't know'') (u ''I don't know.'') \<and>
   g4f_response (sample_env\<lparr>ddgs_text := \<lambda>q. Inl (OtherException (u ''202 Ratelimit''))\<rparr>)
     initial_globals sample_history =
     (PStr (u ''Error: 202 Ratelimit''), initial_globals\<lparr>g4f_requests := 1\<rparr>,
      [Create sample_history, Search (u ''What is the capital of France?'')])"
  by (simp add: g4f_response_def g4f_try_def sample_env_def sample_history_def dict_get_def
      low_confidence_def initial_globals_def Let_def)

subsection \<open>Image proxy\<close>




end
